theory Spec2Isabelle
  imports Complex_Main
begin

section \<open>Vehicle-Tracking-App: the playback component \<^verbatim>\<open>VehicleMap.jsx\<close>\<close>

text \<open>
  The component replays a recorded route on a map. This theory embeds its non-rendering
  logic: the planar distance and the speed readout (\<^verbatim>\<open>calculateDistanceKm\<close>,
  \<^verbatim>\<open>calculateSpeedKmH\<close>), the loading of the route, and the playback state with its
  interval timer.

  Numbers. A JavaScript number is a binary double. Here a finite number is a real, the
  value of the expression without the rounding of doubles. Comparisons of these values
  and the order of the guards are modelled; the digits that \<^verbatim>\<open>toFixed\<close> prints for a finite
  number depend on the rounding of the double and are left unevaluated. \<^verbatim>\<open>NaN\<close> (the
  time value of an invalid date) is kept as a value of its own. Array indices are
  integers.
\<close>

subsection \<open>Data\<close>

text \<open>
  A point of the route as \<^verbatim>\<open>loadData\<close> builds it: \<^verbatim>\<open>{lat, lng, timestamp}\<close>. The
  timestamp is a string, or \<^verbatim>\<open>null\<close> (\<open>None\<close>) as in the default position of the view.
\<close>

record RoutePoint =
  lat :: real
  lng :: real
  timestamp :: "string option"

text \<open>A JavaScript number: a finite value or \<^verbatim>\<open>NaN\<close>.\<close>

datatype number = Num real | NaN

text \<open>
  The text the speed readout shows: a literal text, or \<open>Decimals f x\<close> for what
  \<^verbatim>\<open>toFixed(f)\<close> prints for the double that the code computes where the exact value
  is \<open>x\<close>. That text follows the rounding of the double (and is in exponent notation
  from \<open>10\<^sup>2\<^sup>1\<close> on); it is not evaluated here.
\<close>

datatype readout = Text string | Decimals nat real

subsection \<open>Reading an array\<close>

text \<open>
  \<^verbatim>\<open>routeData[i]\<close>: the element, or \<^verbatim>\<open>undefined\<close> (\<open>None\<close>) for an index outside
  the array. A read out of range does not throw in JavaScript.
\<close>

definition in_range :: "'a list \<Rightarrow> int \<Rightarrow> bool" where
  "in_range xs i = (0 \<le> i \<and> i < int (length xs))"

definition array_get :: "'a list \<Rightarrow> int \<Rightarrow> 'a option" where
  "array_get xs i = (if in_range xs i then Some (xs ! nat i) else None)"

subsection \<open>Dates\<close>

text \<open>
  \<^verbatim>\<open>new Date(v).getTime()\<close>: milliseconds since the epoch, or \<^verbatim>\<open>NaN\<close> (\<open>None\<close>) for an
  invalid date. \<^verbatim>\<open>new Date(null)\<close> is the epoch itself. For a string the result is
  \<^verbatim>\<open>Date.parse\<close>, which ECMAScript fixes for its own date-time format only and leaves
  to the host otherwise; it is the parameter \<open>parse\<close> of everything below.
\<close>

definition Date_getTime :: "(string \<Rightarrow> int option) \<Rightarrow> string option \<Rightarrow> int option" where
  "Date_getTime parse v = (case v of None \<Rightarrow> Some 0 | Some s \<Rightarrow> parse s)"

subsection \<open>\<^verbatim>\<open>Number.prototype.toFixed\<close>\<close>

text \<open>\<^verbatim>\<open>x.toFixed(f)\<close>: \<^verbatim>\<open>"NaN"\<close> for \<^verbatim>\<open>NaN\<close>, the decimals of a finite number.\<close>

definition toFixed :: "nat \<Rightarrow> number \<Rightarrow> readout" where
  "toFixed f v = (case v of NaN \<Rightarrow> Text ''NaN'' | Num x \<Rightarrow> Decimals f x)"

subsection \<open>Distance and speed\<close>

definition calculateDistanceKm :: "real \<Rightarrow> real \<Rightarrow> real \<Rightarrow> real \<Rightarrow> real" where
  "calculateDistanceKm lat1 lon1 lat2 lon2 =
     (let dLat = lat2 - lat1;
          dLon = lon2 - lon1
      in sqrt (dLat * dLat + dLon * dLon) * 111.32)"

text \<open>
  \<^verbatim>\<open>timeDeltaMs\<close>: the difference of two time values, \<^verbatim>\<open>NaN\<close> when either is.
\<close>

definition timeDeltaMs :: "(string \<Rightarrow> int option) \<Rightarrow> RoutePoint \<Rightarrow> RoutePoint \<Rightarrow> number" where
  "timeDeltaMs parse currPoint prevPoint =
     (case (Date_getTime parse (timestamp currPoint), Date_getTime parse (timestamp prevPoint)) of
        (Some c, Some p) \<Rightarrow> Num (real_of_int (c - p))
      | _ \<Rightarrow> NaN)"

text \<open>
  The comparison \<^verbatim>\<open>timeDeltaHours <= 0\<close> is false for \<^verbatim>\<open>NaN\<close>, and a quotient by
  \<^verbatim>\<open>NaN\<close> is \<^verbatim>\<open>NaN\<close>. The division by \<open>h\<close> is reached with \<open>0 < h\<close> only.
\<close>

definition calculateSpeedKmH :: "(string \<Rightarrow> int option) \<Rightarrow> int \<Rightarrow> RoutePoint list \<Rightarrow> readout" where
  "calculateSpeedKmH parse currentIndex routeData =
     (if currentIndex = 0 \<or> length routeData \<le> 1 then Text ''0.00''
      else
        case (array_get routeData (currentIndex - 1), array_get routeData currentIndex) of
          (Some prevPoint, Some currPoint) \<Rightarrow>
            (let distanceKm = calculateDistanceKm (lat prevPoint) (lng prevPoint)
                                (lat currPoint) (lng currPoint)
             in case timeDeltaMs parse currPoint prevPoint of
                  NaN \<Rightarrow> toFixed 2 NaN
                | Num ms \<Rightarrow>
                    (let timeDeltaHours = ms / (1000 * 60 * 60)
                     in if timeDeltaHours \<le> 0 then Text ''N/A''
                        else toFixed 2 (Num (distanceKm / timeDeltaHours))))
        | _ \<Rightarrow> Text ''0.00'')"

subsection \<open>One host's \<^verbatim>\<open>Date.parse\<close>\<close>

text \<open>
  The UTC form \<^verbatim>\<open>YYYY-MM-DDTHH:mm:ssZ\<close> of the ECMAScript date-time format, with the
  time value the standard gives it (\<^verbatim>\<open>DayFromYear\<close>, \<^verbatim>\<open>MakeDay\<close>, \<^verbatim>\<open>MakeTime\<close>). Every
  other string is an invalid date here: the other forms of the format and what a host
  accepts beyond it are not modelled. The general statements below hold for every
  \<open>parse\<close>; this one evaluates them on concrete routes.
\<close>

definition digit_value :: "char \<Rightarrow> nat option" where
  "digit_value c =
     (if of_char CHR ''0'' \<le> (of_char c :: nat) \<and> (of_char c :: nat) \<le> of_char CHR ''9''
      then Some (of_char c - of_char CHR ''0'') else None)"

fun digits_value :: "nat \<Rightarrow> string \<Rightarrow> nat option" where
  "digits_value acc [] = Some acc"
| "digits_value acc (c # cs) =
     (case digit_value c of None \<Rightarrow> None | Some d \<Rightarrow> digits_value (10 * acc + d) cs)"

definition field :: "string \<Rightarrow> nat \<Rightarrow> nat \<Rightarrow> nat option" where
  "field s pos len = digits_value 0 (take len (drop pos s))"

definition leap_year :: "nat \<Rightarrow> bool" where
  "leap_year y = (y mod 4 = 0 \<and> (y mod 100 \<noteq> 0 \<or> y mod 400 = 0))"

definition days_in_month :: "nat \<Rightarrow> nat \<Rightarrow> nat" where
  "days_in_month y m =
     (if m = 2 then (if leap_year y then 29 else 28)
      else if m = 4 \<or> m = 6 \<or> m = 9 \<or> m = 11 then 30 else 31)"

definition DayFromYear :: "int \<Rightarrow> int" where
  "DayFromYear y =
     365 * (y - 1970) + (y - 1969) div 4 - (y - 1901) div 100 + (y - 1601) div 400"

definition MakeDay :: "nat \<Rightarrow> nat \<Rightarrow> nat \<Rightarrow> int" where
  "MakeDay y m d =
     DayFromYear (int y) + int (sum_list (map (days_in_month y) [1..<m])) + int d - 1"

definition utc_parse :: "string \<Rightarrow> int option" where
  "utc_parse s =
     (if length s = 20 \<and> map ((!) s) [4, 7, 10, 13, 16, 19] = ''--T::Z'' then
        case those [field s 0 4, field s 5 2, field s 8 2,
                    field s 11 2, field s 14 2, field s 17 2] of
          Some [y, m, d, h, mi, sec] \<Rightarrow>
            if 1 \<le> m \<and> m \<le> 12 \<and> 1 \<le> d \<and> d \<le> days_in_month y m
               \<and> h < 24 \<and> mi < 60 \<and> sec < 60
            then Some (MakeDay y m d * 86400000
                       + int h * 3600000 + int mi * 60000 + int sec * 1000)
            else None
        | _ \<Rightarrow> None
      else None)"

subsection \<open>The component's state\<close>

text \<open>
  The three \<^verbatim>\<open>useState\<close> cells and the \<^verbatim>\<open>useRef\<close> cell of \<^verbatim>\<open>VehicleMap\<close>, and what
  the component acts on outside itself: the intervals of the host that are live
  (\<open>timers\<close>; \<^verbatim>\<open>setInterval\<close> returns a fresh handle, \<open>nextTimer\<close>), and the errors
  written with \<^verbatim>\<open>console.error\<close>. The \<^verbatim>\<open>console.log\<close> lines are not modelled.
\<close>

datatype load_error = NetworkError | SyntaxError | TypeError

record VehicleMap =
  routeData :: "RoutePoint list"
  currentIndex :: int
  isPlaying :: bool
  intervalRef :: "nat option"
  timers :: "nat set"
  nextTimer :: nat
  consoleErrors :: "load_error list"

text \<open>
  A record of \<^verbatim>\<open>dummy-route.json\<close>: \<^verbatim>\<open>latitude\<close>, \<^verbatim>\<open>longitude\<close>, \<^verbatim>\<open>timestamp\<close>.
\<close>

type_synonym json_point = "real \<times> real \<times> string option"

text \<open>
  What can happen to the mounted component: a click on Play/Pause, a click on Reset,
  the interval with a given handle firing, and the end of \<^verbatim>\<open>loadData\<close>'s awaits
  (\<^verbatim>\<open>fetch\<close> and \<^verbatim>\<open>response.json()\<close>) with an exception or with the parsed array.
\<close>

datatype event = Toggle | Reset | Tick nat | Load "load_error + json_point list"

definition clearInterval :: "nat option \<Rightarrow> nat set \<Rightarrow> nat set" where
  "clearInterval handle live = (case handle of None \<Rightarrow> live | Some t \<Rightarrow> live - {t})"

text \<open>
  The effect on \<^verbatim>\<open>[isPlaying, currentIndex, routeData]\<close>. React runs the cleanup of the
  last run, then the body, after every render in which one of the three has changed.
  The cleanup reads \<^verbatim>\<open>intervalRef.current\<close> when it runs.
\<close>

definition cleanup :: "VehicleMap \<Rightarrow> VehicleMap" where
  "cleanup s = s\<lparr>timers := clearInterval (intervalRef s) (timers s)\<rparr>"

definition playbackEffect :: "VehicleMap \<Rightarrow> VehicleMap" where
  "playbackEffect s =
     (if isPlaying s \<and> length (routeData s) > 0
         \<and> currentIndex s < int (length (routeData s)) - 1
      then s\<lparr>intervalRef := Some (nextTimer s),
             timers := insert (nextTimer s) (timers s),
             nextTimer := nextTimer s + 1\<rparr>
      else s)"

definition rerun :: "VehicleMap \<Rightarrow> VehicleMap" where
  "rerun s = playbackEffect (cleanup s)"

text \<open>
  \<^verbatim>\<open>loadData\<close>: on success the records become the route (a new array, so the effect
  runs again); an exception is caught and written to the console.
\<close>

definition loadData :: "load_error + json_point list \<Rightarrow> VehicleMap \<Rightarrow> VehicleMap" where
  "loadData outcome s =
     (case outcome of
        Inl error \<Rightarrow> s\<lparr>consoleErrors := consoleErrors s @ [error]\<rparr>
      | Inr data \<Rightarrow>
          rerun (s\<lparr>routeData :=
                     map (\<lambda>(latitude, longitude, ts).
                            \<lparr>lat = latitude, lng = longitude, timestamp = ts\<rparr>) data\<rparr>))"

text \<open>
  One event. Setting a state cell to the value it has renders nothing and runs no
  effect (Reset on a stopped component at index 0). A handle that is not live does
  not fire.
\<close>

fun step :: "VehicleMap \<Rightarrow> event \<Rightarrow> VehicleMap" where
  "step s Toggle = rerun (s\<lparr>isPlaying := \<not> isPlaying s\<rparr>)"
| "step s Reset =
     (if \<not> isPlaying s \<and> currentIndex s = 0 then s
      else rerun (s\<lparr>isPlaying := False, currentIndex := 0\<rparr>))"
| "step s (Tick t) =
     (if t \<in> timers s then rerun (s\<lparr>currentIndex := currentIndex s + 1\<rparr>) else s)"
| "step s (Load outcome) = loadData outcome s"

fun run :: "VehicleMap \<Rightarrow> event list \<Rightarrow> VehicleMap" where
  "run s [] = s"
| "run s (e # es) = run (step s e) es"

text \<open>The component after its first render: the effect has run and started nothing.\<close>

definition mounted :: VehicleMap where
  "mounted = \<lparr>routeData = [], currentIndex = 0, isPlaying = False, intervalRef = None,
              timers = {}, nextTimer = 1, consoleErrors = []\<rparr>"

definition is_Load :: "event \<Rightarrow> bool" where
  "is_Load e = (case e of Load _ \<Rightarrow> True | _ \<Rightarrow> False)"

subsection \<open>Reachable states\<close>

text \<open>
  The component once \<^verbatim>\<open>loadData\<close> has stored a route, before any click: index 0,
  stopped, no interval.
\<close>

definition loaded :: "json_point list \<Rightarrow> VehicleMap" where
  "loaded data = step mounted (Load (Inr data))"

text \<open>
  What holds of the intervals in every state the component reaches: a live interval
  is the one \<^verbatim>\<open>intervalRef\<close> holds, its handle has been handed out, and it is live
  only while playing before the last point.
\<close>

definition timer_inv :: "VehicleMap \<Rightarrow> bool" where
  "timer_inv s =
     (timers s \<subseteq> set_option (intervalRef s)
      \<and> (\<forall>t \<in> timers s. t < nextTimer s)
      \<and> (timers s \<noteq> {} \<longrightarrow>
            isPlaying s \<and> currentIndex s < int (length (routeData s)) - 1))"

subsection \<open>The view's reads\<close>

text \<open>\<^verbatim>\<open>routeData[currentIndex] || { lat: 0, lng: 0, timestamp: null }\<close>\<close>

definition currentPosition :: "VehicleMap \<Rightarrow> RoutePoint" where
  "currentPosition s =
     (case array_get (routeData s) (currentIndex s) of
        Some point \<Rightarrow> point
      | None \<Rightarrow> \<lparr>lat = 0, lng = 0, timestamp = None\<rparr>)"

text \<open>
  The indices at which one render subscripts \<^verbatim>\<open>routeData\<close>: \<^verbatim>\<open>currentIndex\<close> for
  the current position, then \<^verbatim>\<open>currentIndex\<close> and \<^verbatim>\<open>currentIndex - 1\<close> in
  \<^verbatim>\<open>calculateSpeedKmH\<close> unless its first line returns.
\<close>

definition speed_subscripts :: "int \<Rightarrow> 'a list \<Rightarrow> int list" where
  "speed_subscripts i route = (if i = 0 \<or> length route \<le> 1 then [] else [i, i - 1])"

definition render_subscripts :: "VehicleMap \<Rightarrow> int list" where
  "render_subscripts s =
     currentIndex s # speed_subscripts (currentIndex s) (routeData s)"

section \<open>The distance\<close>

text \<open>
  C10. \<^verbatim>\<open>calculateDistanceKm\<close> is symmetric in its two points, and its result is
  never negative.
\<close>

theorem calculateDistanceKm_symmetric_nonneg:
  "calculateDistanceKm lat1 lon1 lat2 lon2 = calculateDistanceKm lat2 lon2 lat1 lon1
   \<and> 0 \<le> calculateDistanceKm lat1 lon1 lat2 lon2"
proof
  have "(lat2 - lat1) * (lat2 - lat1) = (lat1 - lat2) * (lat1 - lat2)"
    and "(lon2 - lon1) * (lon2 - lon1) = (lon1 - lon2) * (lon1 - lon2)"
    by (simp_all add: algebra_simps)
  then show "calculateDistanceKm lat1 lon1 lat2 lon2 = calculateDistanceKm lat2 lon2 lat1 lon1"
    by (simp add: calculateDistanceKm_def Let_def)
next
  show "0 \<le> calculateDistanceKm lat1 lon1 lat2 lon2"
    by (simp add: calculateDistanceKm_def Let_def)
qed

section \<open>The speed readout\<close>

lemma utc_parse_ten: "utc_parse ''2024-01-01T10:00:00Z'' = Some 1704103200000"
  by code_simp

lemma utc_parse_eleven: "utc_parse ''2024-01-01T11:00:00Z'' = Some 1704106800000"
  by code_simp

lemma utc_parse_empty: "utc_parse '''' = None"
  by (simp add: utc_parse_def)

lemma both_points_length:
  assumes "array_get route (i - 1) = Some p" "array_get route i = Some q"
  shows "1 \<le> i \<and> 1 < length route"
  using assms by (auto simp: array_get_def in_range_def split: if_splits)

text \<open>
  C3. At an index \<open>i \<ge> 1\<close> whose point and whose predecessor both exist, with a
  timestamp not later than the predecessor's (an elapsed time of zero or less),
  \<^verbatim>\<open>calculateSpeedKmH\<close> returns \<^verbatim>\<open>"N/A"\<close>: the function returns before it divides.
\<close>

theorem calculateSpeedKmH_not_available:
  assumes "1 \<le> i"
    and "array_get route (i - 1) = Some prevPoint"
    and "array_get route i = Some currPoint"
    and "Date_getTime parse (timestamp prevPoint) = Some t0"
    and "Date_getTime parse (timestamp currPoint) = Some t1"
    and "t1 \<le> t0"
  shows "calculateSpeedKmH parse i route = Text ''N/A''"
proof -
  have guard: "\<not> (i = 0 \<or> length route \<le> 1)"
    using both_points_length [OF assms(2,3)] by auto
  have delta: "timeDeltaMs parse currPoint prevPoint = Num (real_of_int (t1 - t0))"
    by (simp add: timeDeltaMs_def assms(4,5))
  have "real_of_int (t1 - t0) / (1000 * 60 * 60) \<le> 0"
    using assms(6) by (simp add: field_simps)
  then show ?thesis
    unfolding calculateSpeedKmH_def using guard
    by (simp add: assms(2,3) delta Let_def del: of_int_diff)
qed

text \<open>The same two points with their timestamps exchanged.\<close>

theorem calculateSpeedKmH_not_available_witness:
  "calculateSpeedKmH utc_parse 1
     [\<lparr>lat = 17, lng = 78, timestamp = Some ''2024-01-01T11:00:00Z''\<rparr>,
      \<lparr>lat = 17.3, lng = 78.4, timestamp = Some ''2024-01-01T10:00:00Z''\<rparr>]
   = Text ''N/A''"
proof -
  let ?p = "\<lparr>lat = 17, lng = 78, timestamp = Some ''2024-01-01T11:00:00Z''\<rparr>"
  let ?q = "\<lparr>lat = 17.3, lng = 78.4, timestamp = Some ''2024-01-01T10:00:00Z''\<rparr>"
  show ?thesis
    using calculateSpeedKmH_not_available
      [of 1 "[?p, ?q]" ?p ?q utc_parse 1704106800000 1704103200000]
    by (simp add: array_get_def in_range_def Date_getTime_def utc_parse_ten utc_parse_eleven)
qed

text \<open>
  C4. \<^verbatim>\<open>calculateSpeedKmH\<close> returns \<^verbatim>\<open>"0.00"\<close> at index 0 of every route, and at
  every index when the route has at most one point or the point at the index or the
  one before it is missing.
\<close>

theorem calculateSpeedKmH_zero:
  "calculateSpeedKmH parse 0 route = Text ''0.00''
   \<and> (length route \<le> 1 \<or> array_get route i = None \<or> array_get route (i - 1) = None
        \<longrightarrow> calculateSpeedKmH parse i route = Text ''0.00'')"
  by (auto simp: calculateSpeedKmH_def split: option.splits)

text \<open>Index 2 of a route of two points: the point at the index is missing.\<close>

theorem calculateSpeedKmH_zero_witness:
  "array_get [\<lparr>lat = 17, lng = 78, timestamp = Some ''2024-01-01T10:00:00Z''\<rparr>,
              \<lparr>lat = 17.3, lng = 78.4, timestamp = Some ''2024-01-01T11:00:00Z''\<rparr>] 2 = None
   \<and> calculateSpeedKmH utc_parse 2
        [\<lparr>lat = 17, lng = 78, timestamp = Some ''2024-01-01T10:00:00Z''\<rparr>,
         \<lparr>lat = 17.3, lng = 78.4, timestamp = Some ''2024-01-01T11:00:00Z''\<rparr>]
      = Text ''0.00''"
proof -
  let ?r = "[\<lparr>lat = 17, lng = 78, timestamp = Some ''2024-01-01T10:00:00Z''\<rparr>,
             \<lparr>lat = 17.3, lng = 78.4, timestamp = Some ''2024-01-01T11:00:00Z''\<rparr>]"
  have missing: "array_get ?r 2 = None"
    by (simp add: array_get_def in_range_def)
  with calculateSpeedKmH_zero [of utc_parse ?r 2] show ?thesis by simp
qed

text \<open>
  C8. The claim is that the result is always \<^verbatim>\<open>"N/A"\<close>, \<^verbatim>\<open>"0.00"\<close> or a speed with
  two decimals, whatever strings the timestamps are. With a timestamp that is no date
  (the empty string here) the elapsed time is \<^verbatim>\<open>NaN\<close>, the test
  \<^verbatim>\<open>timeDeltaHours <= 0\<close> is false, and the function returns \<^verbatim>\<open>"NaN"\<close>.
\<close>

theorem calculateSpeedKmH_invalid_date:
  "calculateSpeedKmH utc_parse 1
     [\<lparr>lat = 17, lng = 78, timestamp = Some ''''\<rparr>,
      \<lparr>lat = 17.3, lng = 78.4, timestamp = Some ''2024-01-01T11:00:00Z''\<rparr>]
   = Text ''NaN''"
  by (simp add: calculateSpeedKmH_def array_get_def in_range_def timeDeltaMs_def
      Date_getTime_def utc_parse_empty utc_parse_eleven toFixed_def)

section \<open>The interval timer\<close>

lemmas run_defs = mounted_def loaded_def loadData_def rerun_def cleanup_def playbackEffect_def
  clearInterval_def

lemma cleanup_timers:
  "timers s \<subseteq> set_option (intervalRef s) \<Longrightarrow> timers (cleanup s) = {}"
  by (cases "intervalRef s") (auto simp: cleanup_def clearInterval_def)

lemma rerun_timers:
  assumes "timers s \<subseteq> set_option (intervalRef s)"
  shows "timers (rerun s) =
    (if isPlaying s \<and> length (routeData s) > 0
        \<and> currentIndex s < int (length (routeData s)) - 1
     then {nextTimer s} else {})"
  using cleanup_timers [OF assms]
  by (simp add: rerun_def playbackEffect_def) (simp add: cleanup_def)

lemma rerun_fields [simp]:
  "isPlaying (rerun s) = isPlaying s"
  "currentIndex (rerun s) = currentIndex s"
  "routeData (rerun s) = routeData s"
  "consoleErrors (rerun s) = consoleErrors s"
  by (simp_all add: rerun_def playbackEffect_def cleanup_def)

lemma timer_inv_rerun:
  assumes "timers s \<subseteq> set_option (intervalRef s)"
  shows "timer_inv (rerun s)"
proof -
  have "timers (cleanup s) = {}" using assms by (rule cleanup_timers)
  then show ?thesis
    by (auto simp: timer_inv_def rerun_def playbackEffect_def) 
qed

lemma timer_inv_step: "timer_inv s \<Longrightarrow> timer_inv (step s e)"
proof (cases e)
  case Toggle
  assume "timer_inv s"
  then have "timers (s\<lparr>isPlaying := \<not> isPlaying s\<rparr>)
      \<subseteq> set_option (intervalRef (s\<lparr>isPlaying := \<not> isPlaying s\<rparr>))"
    by (simp add: timer_inv_def)
  then show ?thesis unfolding Toggle step.simps by (rule timer_inv_rerun)
next
  case Reset
  assume inv: "timer_inv s"
  then have "timers (s\<lparr>isPlaying := False, currentIndex := 0\<rparr>)
      \<subseteq> set_option (intervalRef (s\<lparr>isPlaying := False, currentIndex := 0\<rparr>))"
    by (simp add: timer_inv_def)
  then have "timer_inv (rerun (s\<lparr>isPlaying := False, currentIndex := 0\<rparr>))"
    by (rule timer_inv_rerun)
  with inv show ?thesis unfolding Reset by simp
next
  case (Tick t)
  assume inv: "timer_inv s"
  then have "timers (s\<lparr>currentIndex := currentIndex s + 1\<rparr>)
      \<subseteq> set_option (intervalRef (s\<lparr>currentIndex := currentIndex s + 1\<rparr>))"
    by (simp add: timer_inv_def)
  then have "timer_inv (rerun (s\<lparr>currentIndex := currentIndex s + 1\<rparr>))"
    by (rule timer_inv_rerun)
  with inv show ?thesis unfolding Tick by simp
next
  case (Load outcome)
  assume inv: "timer_inv s"
  show ?thesis
  proof (cases outcome)
    case (Inl error)
    with inv show ?thesis unfolding Load by (simp add: loadData_def timer_inv_def)
  next
    case (Inr data)
    let ?s = "s\<lparr>routeData := map (\<lambda>(latitude, longitude, ts).
                 \<lparr>lat = latitude, lng = longitude, timestamp = ts\<rparr>) data\<rparr>"
    from inv have "timers ?s \<subseteq> set_option (intervalRef ?s)"
      by (simp add: timer_inv_def)
    then have "timer_inv (rerun ?s)" by (rule timer_inv_rerun)
    then show ?thesis unfolding Load Inr by (simp add: loadData_def)
  qed
qed

lemma timer_inv_run: "timer_inv s \<Longrightarrow> timer_inv (run s evs)"
  by (induction evs arbitrary: s) (simp_all add: timer_inv_step)

lemma timer_inv_mounted: "timer_inv mounted"
  by (simp add: timer_inv_def mounted_def)

lemma timer_inv_reachable: "timer_inv (run mounted evs)"
  using timer_inv_mounted by (rule timer_inv_run)

lemma timer_inv_card: "timer_inv s \<Longrightarrow> finite (timers s) \<and> card (timers s) \<le> 1"
proof -
  assume "timer_inv s"
  then have sub: "timers s \<subseteq> set_option (intervalRef s)" by (simp add: timer_inv_def)
  have fin: "finite (set_option (intervalRef s))" by (cases "intervalRef s") simp_all
  have "card (set_option (intervalRef s)) \<le> 1" by (cases "intervalRef s") simp_all
  with card_mono [OF fin sub] finite_subset [OF sub fin] show ?thesis by simp
qed

lemma rerun_fresh:
  assumes "timer_inv s"
    and "timers s' = timers s" "intervalRef s' = intervalRef s" "nextTimer s' = nextTimer s"
  shows "timers s \<inter> timers (rerun s') = {}"
proof -
  from assms have sub: "timers s' \<subseteq> set_option (intervalRef s')" by (simp add: timer_inv_def)
  have "timers (rerun s') \<subseteq> {nextTimer s}"
    using rerun_timers [OF sub] assms(4) by (simp split: if_splits)
  moreover have "nextTimer s \<notin> timers s" using assms(1) by (auto simp: timer_inv_def)
  ultimately show ?thesis by auto
qed

lemma step_changes_cancel:
  assumes inv: "timer_inv s"
    and changed: "isPlaying (step s e) \<noteq> isPlaying s \<or> currentIndex (step s e) \<noteq> currentIndex s
       \<or> routeData (step s e) \<noteq> routeData s"
  shows "timers s \<inter> timers (step s e) = {}"
proof (cases e)
  case Toggle
  show ?thesis unfolding Toggle step.simps by (rule rerun_fresh [OF inv]) simp_all
next
  case Reset
  show ?thesis
  proof (cases "\<not> isPlaying s \<and> currentIndex s = 0")
    case True
    with changed show ?thesis unfolding Reset by simp
  next
    case False
    have "timers s \<inter> timers (rerun (s\<lparr>isPlaying := False, currentIndex := 0\<rparr>)) = {}"
      by (rule rerun_fresh [OF inv]) simp_all
    with False show ?thesis unfolding Reset by auto
  qed
next
  case (Tick t)
  show ?thesis
  proof (cases "t \<in> timers s")
    case True
    have "timers s \<inter> timers (rerun (s\<lparr>currentIndex := currentIndex s + 1\<rparr>)) = {}"
      by (rule rerun_fresh [OF inv]) simp_all
    with True show ?thesis unfolding Tick by simp
  next
    case False
    with changed show ?thesis unfolding Tick by simp
  qed
next
  case (Load outcome)
  show ?thesis
  proof (cases outcome)
    case (Inl error)
    with changed show ?thesis unfolding Load by (simp add: loadData_def)
  next
    case (Inr data)
    show ?thesis unfolding Load Inr step.simps loadData_def sum.case
      by (rule rerun_fresh [OF inv]) simp_all
  qed
qed

text \<open>
  C5. In every state reached from the mounted component by clicks, ticks and loads, at
  most one interval is live, and the cleanup of the effect leaves none. An event that
  changes \<^verbatim>\<open>isPlaying\<close>, \<^verbatim>\<open>currentIndex\<close> or the route leaves no interval live that
  was live before it: the effect cancels the old one before it may start a new one.
\<close>

theorem single_timer:
  "finite (timers (run mounted evs)) \<and> card (timers (run mounted evs)) \<le> 1
   \<and> timers (cleanup (run mounted evs)) = {}
   \<and> (isPlaying (step (run mounted evs) e) \<noteq> isPlaying (run mounted evs)
        \<or> currentIndex (step (run mounted evs) e) \<noteq> currentIndex (run mounted evs)
        \<or> routeData (step (run mounted evs) e) \<noteq> routeData (run mounted evs)
      \<longrightarrow> timers (run mounted evs) \<inter> timers (step (run mounted evs) e) = {})"
proof -
  have inv: "timer_inv (run mounted evs)" by (rule timer_inv_reachable)
  then have "timers (cleanup (run mounted evs)) = {}"
    by (intro cleanup_timers) (simp add: timer_inv_def)
  with timer_inv_card [OF inv] step_changes_cancel [OF inv, of e] show ?thesis by blast
qed

text \<open>
  Playing at index 0 of three points with interval 1 live: the tick moves to index 1,
  cancels interval 1 and starts interval 2.
\<close>

theorem single_timer_witness:
  "timers (run mounted [Load (Inr [(0, 0, None), (1, 1, None), (2, 2, None)]), Toggle]) = {1}
   \<and> currentIndex (run mounted [Load (Inr [(0, 0, None), (1, 1, None), (2, 2, None)]), Toggle]) = 0
   \<and> currentIndex (step (run mounted [Load (Inr [(0, 0, None), (1, 1, None), (2, 2, None)]), Toggle])
         (Tick 1)) = 1
   \<and> timers (run mounted [Load (Inr [(0, 0, None), (1, 1, None), (2, 2, None)]), Toggle])
       \<inter> timers (step (run mounted [Load (Inr [(0, 0, None), (1, 1, None), (2, 2, None)]), Toggle])
           (Tick 1)) = {}"
proof -
  let ?s = "run mounted [Load (Inr [(0, 0, None), (1, 1, None), (2, 2, None)]), Toggle]"
  have live: "timers ?s = {1}" and before: "currentIndex ?s = 0"
    by (simp_all add: run_defs)
  have after: "currentIndex (step ?s (Tick 1)) = 1"
    using live before by simp
  from single_timer [of "[Load (Inr [(0, 0, None), (1, 1, None), (2, 2, None)]), Toggle]" "Tick 1"]
    before after
  have "timers ?s \<inter> timers (step ?s (Tick 1)) = {}" by simp
  with live before after show ?thesis by simp
qed

section \<open>Playback within a fixed route\<close>

lemma playback_step_bound:
  assumes "timer_inv s" and "\<not> is_Load e" and "routeData s \<noteq> []"
    and "currentIndex s \<le> int (length (routeData s)) - 1"
  shows "routeData (step s e) = routeData s
    \<and> currentIndex (step s e) \<le> int (length (routeData s)) - 1"
proof (cases e)
  case (Tick t)
  show ?thesis
  proof (cases "t \<in> timers s")
    case True
    with assms(1) have "currentIndex s < int (length (routeData s)) - 1"
      by (auto simp: timer_inv_def)
    with True show ?thesis unfolding Tick by simp
  next
    case False
    with assms(4) show ?thesis unfolding Tick by simp
  qed
next
  case (Load outcome)
  with assms(2) show ?thesis by (simp add: is_Load_def)
qed (use assms(3,4) in simp_all)

lemma playback_run_bound:
  assumes "timer_inv s" and "\<forall>e \<in> set evs. \<not> is_Load e" and "routeData s \<noteq> []"
    and "currentIndex s \<le> int (length (routeData s)) - 1"
  shows "routeData (run s evs) = routeData s
    \<and> currentIndex (run s evs) \<le> int (length (routeData s)) - 1"
  using assms
proof (induction evs arbitrary: s)
  case Nil
  then show ?case by simp
next
  case (Cons e evs)
  from Cons.prems have e: "\<not> is_Load e" and evs: "\<forall>e \<in> set evs. \<not> is_Load e"
    by simp_all
  note one = playback_step_bound [OF Cons.prems(1) e Cons.prems(3,4)]
  have "routeData (run (step s e) evs) = routeData (step s e)
    \<and> currentIndex (run (step s e) evs) \<le> int (length (routeData (step s e))) - 1"
    using one Cons.prems(3)
    by (intro Cons.IH timer_inv_step [OF Cons.prems(1)] evs) simp_all
  with one show ?case by simp
qed

lemma loaded_fields:
  "length (routeData (loaded data)) = length data"
  "currentIndex (loaded data) = 0"
  "isPlaying (loaded data) = False"
  "timers (loaded data) = {}"
  by (simp_all add: loaded_def loadData_def mounted_def rerun_def cleanup_def
      playbackEffect_def clearInterval_def)

lemma timer_inv_loaded: "timer_inv (loaded data)"
  unfolding loaded_def using timer_inv_mounted by (rule timer_inv_step)

text \<open>
  C2. With a non-empty route loaded, after any clicks on Play/Pause and Reset and any
  ticks, \<^verbatim>\<open>currentIndex\<close> is at most the last index. At the last index no interval
  is live, so a tick changes nothing: the index does not advance and no interval is
  started. A tick never changes \<^verbatim>\<open>isPlaying\<close>, which so stays true at the end of the
  route.
\<close>

theorem playback_within_route:
  assumes "data \<noteq> []" and "\<forall>e \<in> set evs. \<not> is_Load e"
  shows "length (routeData (run (loaded data) evs)) = length data
    \<and> currentIndex (run (loaded data) evs) \<le> int (length data) - 1
    \<and> (currentIndex (run (loaded data) evs) = int (length data) - 1 \<longrightarrow>
          timers (run (loaded data) evs) = {}
          \<and> step (run (loaded data) evs) (Tick t) = run (loaded data) evs)
    \<and> isPlaying (step (run (loaded data) evs) (Tick t)) = isPlaying (run (loaded data) evs)"
proof -
  let ?s = "run (loaded data) evs"
  have nonempty: "routeData (loaded data) \<noteq> []"
    using assms(1) loaded_fields(1) [of data] by auto
  have start: "currentIndex (loaded data) \<le> int (length (routeData (loaded data))) - 1"
    using assms(1) by (simp add: loaded_fields)
  note bound = playback_run_bound [OF timer_inv_loaded assms(2) nonempty start]
  have inv: "timer_inv ?s" using timer_inv_loaded by (rule timer_inv_run)
  have len: "length (routeData ?s) = length data"
    using bound by (simp add: loaded_fields)
  have last: "timers ?s = {}" if "currentIndex ?s = int (length data) - 1"
    using inv that len by (auto simp: timer_inv_def)
  have "isPlaying (step ?s (Tick t)) = isPlaying ?s" by simp
  with bound len last show ?thesis by (simp add: loaded_fields)
qed

text \<open>
  Two points, Play, one tick: the last index is reached, still playing, no interval.
\<close>

theorem playback_within_route_witness:
  "currentIndex (run (loaded [(0, 0, None), (1, 1, None)]) [Toggle, Tick 1]) = 1
   \<and> isPlaying (run (loaded [(0, 0, None), (1, 1, None)]) [Toggle, Tick 1])
   \<and> timers (run (loaded [(0, 0, None), (1, 1, None)]) [Toggle, Tick 1]) = {}
   \<and> step (run (loaded [(0, 0, None), (1, 1, None)]) [Toggle, Tick 1]) (Tick 1)
       = run (loaded [(0, 0, None), (1, 1, None)]) [Toggle, Tick 1]"
proof -
  let ?s = "run (loaded [(0, 0, None), (1, 1, None)]) [Toggle, Tick 1]"
  have idx: "currentIndex ?s = 1" and playing: "isPlaying ?s"
    by (simp_all add: run_defs)
  have "\<forall>e \<in> set [Toggle, Tick 1]. \<not> is_Load e"
    by (simp add: is_Load_def)
  from playback_within_route [OF _ this, of "[(0, 0, None), (1, 1, None)]" 1] idx
  have "timers ?s = {} \<and> step ?s (Tick 1) = ?s" by simp
  with idx playing show ?thesis by simp
qed

section \<open>Reset\<close>

text \<open>
  C6. From every state Reset gives \<^verbatim>\<open>isPlaying = false\<close> and \<^verbatim>\<open>currentIndex = 0\<close>
  and keeps the route, and a second Reset changes nothing more. In every state the
  component reaches, no interval is live after Reset.
\<close>

theorem reset_stops:
  "\<not> isPlaying (step s Reset) \<and> currentIndex (step s Reset) = 0
   \<and> routeData (step s Reset) = routeData s
   \<and> step (step s Reset) Reset = step s Reset
   \<and> timers (step (run mounted evs) Reset) = {}"
proof -
  have inv: "timer_inv (step (run mounted evs) Reset)"
    using timer_inv_reachable by (rule timer_inv_step)
  have stopped: "\<not> isPlaying (step s Reset)" for s by simp
  from inv stopped [of "run mounted evs"] have "timers (step (run mounted evs) Reset) = {}"
    unfolding timer_inv_def by blast
  then show ?thesis by simp
qed

text \<open>
  Reset while playing two points with interval 1 live.
\<close>

theorem reset_stops_witness:
  "isPlaying (run mounted [Load (Inr [(0, 0, None), (1, 1, None)]), Toggle])
   \<and> timers (run mounted [Load (Inr [(0, 0, None), (1, 1, None)]), Toggle]) = {1}
   \<and> \<not> isPlaying (step (run mounted [Load (Inr [(0, 0, None), (1, 1, None)]), Toggle]) Reset)
   \<and> timers (step (run mounted [Load (Inr [(0, 0, None), (1, 1, None)]), Toggle]) Reset) = {}"
proof -
  let ?evs = "[Load (Inr [(0, 0, None), (1, 1, None)]), Toggle]"
  have "isPlaying (run mounted ?evs)" and "timers (run mounted ?evs) = {1}"
    by (simp_all add: run_defs)
  with reset_stops [of "run mounted ?evs" ?evs] show ?thesis by simp
qed

section \<open>A failed load\<close>

text \<open>
  C7. When \<^verbatim>\<open>fetch\<close> or \<^verbatim>\<open>response.json()\<close> throws, the error is written to the
  console and the route, the index, \<^verbatim>\<open>isPlaying\<close> and the intervals are as before; on
  the first load the route stays empty.
\<close>

theorem load_failure:
  "routeData (step s (Load (Inl error))) = routeData s
   \<and> currentIndex (step s (Load (Inl error))) = currentIndex s
   \<and> isPlaying (step s (Load (Inl error))) = isPlaying s
   \<and> timers (step s (Load (Inl error))) = timers s
   \<and> consoleErrors (step s (Load (Inl error))) = consoleErrors s @ [error]
   \<and> routeData (step mounted (Load (Inl error))) = []"
  by (simp add: loadData_def mounted_def)

text \<open>
  A network error on the first load.
\<close>

theorem load_failure_witness:
  "consoleErrors (step mounted (Load (Inl NetworkError))) = [NetworkError]
   \<and> routeData (step mounted (Load (Inl NetworkError))) = []
   \<and> currentIndex (step mounted (Load (Inl NetworkError))) = 0"
  using load_failure [of mounted NetworkError] by (simp add: mounted_def)

section \<open>Reads outside the route\<close>

lemma replaced_route:
  "run mounted [Load (Inr [(0, 0, None), (1, 1, None), (2, 2, None)]), Toggle, Tick 1, Tick 2,
                Load (Inr [(0, 0, None), (1, 1, None)])]
   = \<lparr>routeData = [\<lparr>lat = 0, lng = 0, timestamp = None\<rparr>, \<lparr>lat = 1, lng = 1, timestamp = None\<rparr>],
      currentIndex = 2, isPlaying = True, intervalRef = Some 2, timers = {}, nextTimer = 3,
      consoleErrors = []\<rparr>"
  by (simp add: run_defs)

text \<open>
  C9 as stated fails: the bounds are not checked before \<^verbatim>\<open>routeData\<close> is
  subscripted. After three points are played to index 2 and a route of two points
  replaces them, a render subscripts the route at 2, 2 and 1, and 2 is out of range.
\<close>

theorem render_subscripts_out_of_range:
  "render_subscripts
     (run mounted [Load (Inr [(0, 0, None), (1, 1, None), (2, 2, None)]), Toggle, Tick 1, Tick 2,
                   Load (Inr [(0, 0, None), (1, 1, None)])]) = [2, 2, 1]
   \<and> \<not> in_range
         (routeData
           (run mounted [Load (Inr [(0, 0, None), (1, 1, None), (2, 2, None)]), Toggle, Tick 1,
                         Tick 2, Load (Inr [(0, 0, None), (1, 1, None)])])) 2"
  unfolding replaced_route by (simp add: render_subscripts_def speed_subscripts_def in_range_def)

text \<open>
  C9, amended. The index is neither clamped nor checked before use. A read of
  \<^verbatim>\<open>routeData[currentIndex]\<close> out of range gives \<^verbatim>\<open>undefined\<close>, and that is tested
  before any field is used: the current position is then the default point
  \<^verbatim>\<open>{lat: 0, lng: 0, timestamp: null}\<close> and the speed is \<^verbatim>\<open>"0.00"\<close>.
\<close>

theorem out_of_range_guarded:
  assumes "\<not> in_range (routeData s) (currentIndex s)"
  shows "array_get (routeData s) (currentIndex s) = None
    \<and> currentPosition s = \<lparr>lat = 0, lng = 0, timestamp = None\<rparr>
    \<and> calculateSpeedKmH parse (currentIndex s) (routeData s) = Text ''0.00''"
  using assms by (simp add: currentPosition_def calculateSpeedKmH_def array_get_def)

text \<open>
  The state with the replaced route, index 2 of two points.
\<close>

theorem out_of_range_guarded_witness:
  "currentIndex
     (run mounted [Load (Inr [(0, 0, None), (1, 1, None), (2, 2, None)]), Toggle, Tick 1, Tick 2,
                   Load (Inr [(0, 0, None), (1, 1, None)])]) = 2
   \<and> currentPosition
       (run mounted [Load (Inr [(0, 0, None), (1, 1, None), (2, 2, None)]), Toggle, Tick 1, Tick 2,
                     Load (Inr [(0, 0, None), (1, 1, None)])])
     = \<lparr>lat = 0, lng = 0, timestamp = None\<rparr>
   \<and> calculateSpeedKmH utc_parse 2
       [\<lparr>lat = 0, lng = 0, timestamp = None\<rparr>, \<lparr>lat = 1, lng = 1, timestamp = None\<rparr>]
     = Text ''0.00''"
proof -
  let ?s = "run mounted [Load (Inr [(0, 0, None), (1, 1, None), (2, 2, None)]), Toggle, Tick 1,
                         Tick 2, Load (Inr [(0, 0, None), (1, 1, None)])]"
  have idx: "currentIndex ?s = 2"
    and route: "routeData ?s
      = [\<lparr>lat = 0, lng = 0, timestamp = None\<rparr>, \<lparr>lat = 1, lng = 1, timestamp = None\<rparr>]"
    unfolding replaced_route by simp_all
  have "\<not> in_range (routeData ?s) (currentIndex ?s)"
    unfolding idx route by (simp add: in_range_def)
  from out_of_range_guarded [OF this, of utc_parse] show ?thesis
    unfolding idx route by simp
qed


end
